theory Spec2Isabelle
  imports Main "HOL-Library.Sublist" "HOL-Library.Char_ord" "HOL-Library.List_Lexorder"
    "HOL-Library.Multiset"
begin

section \<open>Python values and the operations the code applies to them\<close>

text \<open>
  The OpenAPI document, the Slack history file and the Jira responses are all what
  \<^verbatim>\<open>json.load\<close> returns: \<^verbatim>\<open>None\<close>, booleans, integers, strings, lists and dicts
  with string keys. A dict is an association list in insertion order, read with
  \<open>map_of\<close>. Floating point numbers are left out: the code never computes with a number,
  it only stores, compares and returns the values it finds.
\<close>

datatype json =
    JNull
  | JBool bool
  | JInt int
  | JStr string
  | JList "json list"
  | JObj "(string \<times> json) list"

text \<open>
  The exceptions that the modelled code raises, by an explicit \<^verbatim>\<open>raise\<close> or through a
  Python operation. \<open>TransportError\<close> stands for whatever the HTTP client raises.
\<close>

datatype error =
    KeyError
  | TypeError
  | IndexError
  | AttributeError
  | ValueError
  | JSONDecodeError
  | OSError
  | TransportError

definition and_then :: "error + 'a \<Rightarrow> ('a \<Rightarrow> error + 'b) \<Rightarrow> error + 'b" where
  "and_then m f = (case m of Inl e \<Rightarrow> Inl e | Inr x \<Rightarrow> f x)"

text \<open>\<^verbatim>\<open>key in container\<close> for a string key.\<close>

definition py_contains :: "string \<Rightarrow> json \<Rightarrow> error + bool" where
  "py_contains key container =
     (case container of
        JObj kvs \<Rightarrow> Inr (key \<in> set (map fst kvs))
      | JList xs \<Rightarrow> Inr (JStr key \<in> set xs)
      | JStr s \<Rightarrow> Inr (sublist key s)
      | _ \<Rightarrow> Inl TypeError)"

text \<open>\<^verbatim>\<open>container[key]\<close> for a string key: only a dict accepts one.\<close>

definition py_getitem :: "json \<Rightarrow> string \<Rightarrow> error + json" where
  "py_getitem container key =
     (case container of
        JObj kvs \<Rightarrow> (case map_of kvs key of None \<Rightarrow> Inl KeyError | Some v \<Rightarrow> Inr v)
      | _ \<Rightarrow> Inl TypeError)"

text \<open>The values a \<^verbatim>\<open>for\<close> loop visits: list elements, dict keys, characters of a string.\<close>

definition py_iter :: "json \<Rightarrow> error + json list" where
  "py_iter v =
     (case v of
        JList xs \<Rightarrow> Inr xs
      | JObj kvs \<Rightarrow> Inr (map (\<lambda>kv. JStr (fst kv)) kvs)
      | JStr s \<Rightarrow> Inr (map (\<lambda>c. JStr [c]) s)
      | _ \<Rightarrow> Inl TypeError)"

text \<open>Truth value of a value in a condition.\<close>

fun truthy :: "json \<Rightarrow> bool" where
  "truthy JNull = False"
| "truthy (JBool b) = b"
| "truthy (JInt i) = (i \<noteq> 0)"
| "truthy (JStr s) = (s \<noteq> [])"
| "truthy (JList xs) = (xs \<noteq> [])"
| "truthy (JObj kvs) = (kvs \<noteq> [])"

text \<open>
  \<^verbatim>\<open>str.lower()\<close> and \<^verbatim>\<open>str.upper()\<close> on the ASCII letters; HTTP methods and the
  configured field names are ASCII. Other characters are left as they are.
\<close>

definition lower_char :: "char \<Rightarrow> char" where
  "lower_char c = (if CHR ''A'' \<le> c \<and> c \<le> CHR ''Z'' then char_of (of_char c + (32::nat)) else c)"

definition upper_char :: "char \<Rightarrow> char" where
  "upper_char c = (if CHR ''a'' \<le> c \<and> c \<le> CHR ''z'' then char_of (of_char c - (32::nat)) else c)"

definition lower :: "string \<Rightarrow> string" where
  "lower s = map lower_char s"

definition upper :: "string \<Rightarrow> string" where
  "upper s = map upper_char s"

section \<open>deprecation.py: detection\<close>

text \<open>
  \<^verbatim>\<open>is_operation_deprecated(oas, path, method)\<close>. The two explicit \<^verbatim>\<open>raise KeyError\<close>
  and the value stored under \<^verbatim>\<open>"deprecated"\<close>, returned as it is. The text of the
  exception is not modelled.
\<close>

definition is_operation_deprecated :: "json \<Rightarrow> string \<Rightarrow> string \<Rightarrow> error + json" where
  "is_operation_deprecated oas path method =
     and_then (py_getitem oas ''paths'') (\<lambda>paths.
     and_then (py_contains path paths) (\<lambda>path_found.
     if \<not> path_found then Inl KeyError
     else
       and_then (py_getitem paths path) (\<lambda>path_item.
       and_then (py_contains (lower method) path_item) (\<lambda>method_found.
       if \<not> method_found then Inl KeyError
       else
         and_then (py_getitem path_item (lower method)) (\<lambda>operation.
         and_then (py_contains ''deprecated'' operation) (\<lambda>has_flag.
         if \<not> has_flag then Inr (JBool False)
         else py_getitem operation ''deprecated''))))))"

text \<open>
  The condition of the loop body of \<^verbatim>\<open>are_parameter_deprecated\<close>, a chain of \<^verbatim>\<open>and\<close>
  evaluated left to right: a later operand is evaluated, and can raise, only when the
  earlier ones are true. \<^verbatim>\<open>parameter_object["name"] in parameter\<close> compares with the
  strings of the requested list, so only a string can be found there.
\<close>

definition parameter_flagged :: "string list \<Rightarrow> json \<Rightarrow> error + bool" where
  "parameter_flagged parameter parameter_object =
     and_then (py_contains ''deprecated'' parameter_object) (\<lambda>has_flag.
     if \<not> has_flag then Inr False
     else
       and_then (py_getitem parameter_object ''deprecated'') (\<lambda>flag.
       if \<not> truthy flag then Inr False
       else
         and_then (py_getitem parameter_object ''name'') (\<lambda>name.
         if name \<notin> set (map JStr parameter) then Inr False
         else
           and_then (py_getitem parameter_object ''in'') (\<lambda>location.
           Inr (location = JStr ''query'')))))"

text \<open>The loop, with \<^verbatim>\<open>deprecatedParams\<close> as the accumulator.\<close>

fun collect_deprecated :: "string list \<Rightarrow> json list \<Rightarrow> json list \<Rightarrow> error + json list" where
  "collect_deprecated parameter [] deprecatedParams = Inr deprecatedParams"
| "collect_deprecated parameter (parameter_object # rest) deprecatedParams =
     and_then (parameter_flagged parameter parameter_object) (\<lambda>flagged.
     if flagged then
       and_then (py_getitem parameter_object ''name'') (\<lambda>name.
       collect_deprecated parameter rest (deprecatedParams @ [name]))
     else collect_deprecated parameter rest deprecatedParams)"

definition are_parameter_deprecated ::
  "json \<Rightarrow> string \<Rightarrow> string \<Rightarrow> string list \<Rightarrow> error + (bool \<times> json list)" where
  "are_parameter_deprecated oas path method parameter =
     and_then (py_getitem oas ''paths'') (\<lambda>paths.
     and_then (py_contains path paths) (\<lambda>path_found.
     if \<not> path_found then Inl KeyError
     else
       and_then (py_getitem paths path) (\<lambda>path_item.
       and_then (py_contains (lower method) path_item) (\<lambda>method_found.
       if \<not> method_found then Inl KeyError
       else
         and_then (py_getitem path_item (lower method)) (\<lambda>operation.
         and_then (py_contains ''parameters'' operation) (\<lambda>has_parameters.
         if \<not> has_parameters then Inl KeyError
         else
           and_then (py_getitem operation ''parameters'') (\<lambda>declared.
           and_then (py_iter declared) (\<lambda>parameter_objects.
           and_then (collect_deprecated parameter parameter_objects []) (\<lambda>deprecatedParams.
           Inr (deprecatedParams \<noteq> [], deprecatedParams))))))))))"

subsection \<open>The specification's reading of a document\<close>

text \<open>
  Spec Lookup as the specification words it: the operation node stored under the exact
  path and the lowercased method, when the document, its \<^verbatim>\<open>paths\<close> entry and the path
  item are mappings.
\<close>

definition spec_find_operation :: "json \<Rightarrow> string \<Rightarrow> string \<Rightarrow> json option" where
  "spec_find_operation oas path method =
     (case oas of
        JObj doc \<Rightarrow>
          (case map_of doc ''paths'' of
             Some (JObj paths) \<Rightarrow>
               (case map_of paths path of
                  Some (JObj methods) \<Rightarrow> map_of methods (lower method)
                | _ \<Rightarrow> None)
           | _ \<Rightarrow> None)
      | _ \<Rightarrow> None)"

definition param_field :: "json \<Rightarrow> string \<Rightarrow> json option" where
  "param_field p k = (case p of JObj kvs \<Rightarrow> map_of kvs k | _ \<Rightarrow> None)"

text \<open>
  The specification's rule for a declared parameter: marked \<^verbatim>\<open>deprecated: true\<close>, named
  in the requested list, and located in the query. The deprecated subset lists the names
  of the flagged parameters in declaration order.
\<close>

definition spec_flagged :: "string list \<Rightarrow> json \<Rightarrow> bool" where
  "spec_flagged requested p =
     (param_field p ''deprecated'' = Some (JBool True)
      \<and> (case param_field p ''name'' of Some (JStr n) \<Rightarrow> n \<in> set requested | _ \<Rightarrow> False)
      \<and> param_field p ''in'' = Some (JStr ''query''))"

definition spec_deprecated_subset :: "string list \<Rightarrow> json list \<Rightarrow> json list" where
  "spec_deprecated_subset requested declared =
     List.map_filter (\<lambda>p. if spec_flagged requested p then param_field p ''name'' else None) declared"

text \<open>
  A ParameterDescriptor of the data model: a mapping whose \<^verbatim>\<open>deprecated\<close> entry, when
  there is one, is a boolean, and which has a \<^verbatim>\<open>name\<close> and an \<^verbatim>\<open>in\<close> entry when it
  is marked deprecated. A reference object (only \<^verbatim>\<open>$ref\<close>) is one too.
\<close>

definition wf_parameter :: "json \<Rightarrow> bool" where
  "wf_parameter p =
     (case p of
        JObj kvs \<Rightarrow>
          (case map_of kvs ''deprecated'' of
             None \<Rightarrow> True
           | Some (JBool b) \<Rightarrow>
               (if b then map_of kvs ''name'' \<noteq> None \<and> map_of kvs ''in'' \<noteq> None else True)
           | Some _ \<Rightarrow> False)
      | _ \<Rightarrow> False)"

definition wf_operation :: "json \<Rightarrow> bool" where
  "wf_operation operation =
     (case operation of
        JObj fields \<Rightarrow>
          (case map_of fields ''parameters'' of
             None \<Rightarrow> True
           | Some (JList declared) \<Rightarrow> list_all wf_parameter declared
           | Some _ \<Rightarrow> False)
      | _ \<Rightarrow> False)"

text \<open>
  An OpenApiDocument of the data model: a mapping with a \<^verbatim>\<open>paths\<close> mapping, each path
  item a mapping from methods to operation objects.
\<close>

definition wf_oas :: "json \<Rightarrow> bool" where
  "wf_oas oas =
     (case oas of
        JObj doc \<Rightarrow>
          (case map_of doc ''paths'' of
             Some (JObj paths) \<Rightarrow>
               list_all (\<lambda>path_item.
                 case snd path_item of
                   JObj methods \<Rightarrow> list_all (\<lambda>m. wf_operation (snd m)) methods
                 | _ \<Rightarrow> False) paths
           | _ \<Rightarrow> False)
      | _ \<Rightarrow> False)"

text \<open>
  The document of the specification's end-to-end scenarios 1 and 2, extended: a second
  deprecated query parameter, a parameter without the flag, a deprecated header parameter
  named like it, an operation without a \<^verbatim>\<open>parameters\<close> field and one with an empty
  list.
\<close>

definition example_parameters :: "json list" where
  "example_parameters =
     [JObj [(''name'', JStr ''limit''), (''in'', JStr ''query''), (''deprecated'', JBool True)],
      JObj [(''name'', JStr ''id''), (''in'', JStr ''path''), (''deprecated'', JBool True)],
      JObj [(''name'', JStr ''page''), (''in'', JStr ''query'')],
      JObj [(''name'', JStr ''page''), (''in'', JStr ''header''), (''deprecated'', JBool True)],
      JObj [(''name'', JStr ''after''), (''in'', JStr ''query''), (''deprecated'', JBool True)]]"

definition example_get :: "(string \<times> json) list" where
  "example_get = [(''deprecated'', JBool True), (''parameters'', JList example_parameters)]"

definition example_oas :: json where
  "example_oas =
     JObj [(''openapi'', JStr ''3.0.0''),
       (''paths'', JObj
         [(''/users'', JObj
            [(''get'', JObj example_get),
             (''post'', JObj [(''summary'', JStr ''create'')]),
             (''put'', JObj [(''parameters'', JList [])])])])]"

section \<open>Datetimes, the HTTP client and the files\<close>

text \<open>
  A \<^verbatim>\<open>datetime\<close> object is what the code observes of it: the text of \<^verbatim>\<open>isoformat()\<close>
  and, for a time zone \<open>tz\<close>, the text of
  \<^verbatim>\<open>astimezone(tz).strftime("%Y-%m-%d %H:%M")\<close>. A datetime is always true in a
  condition, so \<^verbatim>\<open>if deprecation_datetime\<close> tests for \<^verbatim>\<open>None\<close>.
\<close>

record 'tz datetime =
  isoformat :: string
  minute_in :: "'tz \<Rightarrow> string"

text \<open>
  A call \<^verbatim>\<open>http.request(verb, url, fields=..., headers=..., body=...)\<close> of the pool
  manager. The body is the value handed to \<^verbatim>\<open>json.dumps\<close>, not its text. A response is
  what its \<^verbatim>\<open>json()\<close> gives. The remote side is a function of a state \<open>'w\<close> of its own:
  it answers a request, or the client raises, and it moves to a new state.
\<close>

record request =
  verb :: string
  url :: string
  query_fields :: "(string \<times> string) list"
  headers :: "(string \<times> string) list"
  body :: "json option"

datatype response = Response (json_of: "error + json")

type_synonym 'w http = "'w \<Rightarrow> request \<Rightarrow> (error + response) \<times> 'w"

text \<open>
  What writing a path does: \<^verbatim>\<open>open(path, "w")\<close> and \<^verbatim>\<open>json.dump\<close> go through; or
  \<^verbatim>\<open>open\<close> raises (the directory is missing, the path may not be written) and the
  file is as before; or \<^verbatim>\<open>json.dump\<close> raises after \<^verbatim>\<open>open\<close> has emptied the file
  (the disk is full), and what is left is no JSON text.
\<close>

datatype write_outcome = Written | Open_raises | Dump_raises

text \<open>
  The world of a sink: the state of the remote side, the JSON files and what writing
  each path does. A file is what \<^verbatim>\<open>open(path, "r")\<close> and \<^verbatim>\<open>json.load\<close> give for
  its path: \<open>None\<close> when \<^verbatim>\<open>open\<close> raises \<^verbatim>\<open>FileNotFoundError\<close> (the file or its
  directory does not exist), an error when \<^verbatim>\<open>open\<close> raises anything else or
  \<^verbatim>\<open>json.load\<close> raises on the content, the parsed value otherwise.
\<close>

record 'w world =
  net :: 'w
  files :: "string \<Rightarrow> (error + json) option"
  writes :: "string \<Rightarrow> write_outcome"

text \<open>\<^verbatim>\<open>sep.join(xs)\<close>.\<close>

fun join :: "string \<Rightarrow> string list \<Rightarrow> string" where
  "join sep [] = []"
| "join sep [x] = x"
| "join sep (x # y # ys) = x @ sep @ join sep (y # ys)"

text \<open>A list argument in a condition: \<^verbatim>\<open>None\<close> and the empty list are false.\<close>

fun given :: "'a list option \<Rightarrow> bool" where
  "given None = False"
| "given (Some xs) = (xs \<noteq> [])"

section \<open>deprecation.py: the log sink\<close>







section \<open>slack.py: the Slack sink\<close>

record Slack_Configuration =
  webhook_url :: string
  attachment_color :: string
  file_path :: string

text \<open>One \<^verbatim>\<open>section\<close> block with a single \<^verbatim>\<open>mrkdwn\<close> field.\<close>

definition section_block :: "string \<Rightarrow> json" where
  "section_block text =
     JObj [(''type'', JStr ''section''),
           (''fields'', JList [JObj [(''type'', JStr ''mrkdwn''), (''text'', JStr text)]])]"

text \<open>The message template and the payload of the webhook call.\<close>

definition slack_template ::
  "string \<Rightarrow> string \<Rightarrow> string list option \<Rightarrow> 'tz datetime option \<Rightarrow> 'tz datetime option \<Rightarrow>
   json list" where
  "slack_template deprecation_url http_method deprecated_parameter deprecation_datetime
     sunset_datetime =
     [JObj [(''type'', JStr ''header''),
            (''text'', JObj [(''type'', JStr ''plain_text''),
               (''text'', JStr (if deprecated_parameter \<noteq> None
                  then ''At least one parameter of an API endpoint is deprecated.''
                  else ''An API endpoint is deprecated.''))])],
      JObj [(''type'', JStr ''section''),
            (''fields'', JList
               [JObj [(''type'', JStr ''mrkdwn''),
                      (''text'', JStr (''*URL:*'' @ [CHR 0x0A] @ deprecation_url))],
                JObj [(''type'', JStr ''mrkdwn''),
                      (''text'', JStr (''*HTTP-Method*'' @ [CHR 0x0A] @ [CHR 0x60] @ http_method
                         @ [CHR 0x60]))]])],
      JObj [(''type'', JStr ''divider'')]]
     @ (case deprecated_parameter of
          Some ps \<Rightarrow>
            if ps \<noteq> [] then
              [section_block (''*Parameter:*'' @ [CHR 0x0A] @ [CHR 0x60] @ join '', '' ps
                 @ [CHR 0x60])]
            else []
        | None \<Rightarrow> [])
     @ (case deprecation_datetime of
          Some d \<Rightarrow> [section_block (''*HTTP Deprecation Datetime:*'' @ [CHR 0x0A] @ isoformat d)]
        | None \<Rightarrow> [])
     @ (case sunset_datetime of
          Some d \<Rightarrow> [section_block (''*HTTP Sunset Datetime:*'' @ [CHR 0x0A] @ isoformat d)]
        | None \<Rightarrow> [])"

definition slack_request ::
  "Slack_Configuration \<Rightarrow> string \<Rightarrow> string \<Rightarrow> string list option \<Rightarrow> 'tz datetime option \<Rightarrow>
   'tz datetime option \<Rightarrow> request" where
  "slack_request config deprecation_url http_method deprecated_parameter deprecation_datetime
     sunset_datetime =
     \<lparr>verb = ''POST'', url = webhook_url config, query_fields = [], headers = [],
      body = Some (JObj [(''attachments'', JList
        [JObj [(''color'', JStr (attachment_color config)),
               (''blocks'', JList (slack_template deprecation_url http_method
                  deprecated_parameter deprecation_datetime sunset_datetime))]])])\<rparr>"

text \<open>
  \<^verbatim>\<open>new_message\<close>, built by the same expression in both functions. \<^verbatim>\<open>sorted\<close> orders
  strings by code point, as the lexicographic order on character lists does.
\<close>

definition new_message ::
  "string \<Rightarrow> string \<Rightarrow> string list option \<Rightarrow> 'tz datetime option \<Rightarrow> 'tz datetime option \<Rightarrow>
   (string \<times> json) list" where
  "new_message deprecation_url http_method deprecated_parameter deprecation_datetime
     sunset_datetime =
     [(''url'', JStr deprecation_url),
      (''http-method'', JStr http_method),
      (''deprecated-parameter'',
         (case deprecated_parameter of
            Some ps \<Rightarrow> if ps \<noteq> [] then JList (map JStr (sort ps)) else JNull
          | None \<Rightarrow> JNull)),
      (''deprecation-header'',
         (case deprecation_datetime of Some d \<Rightarrow> JStr (isoformat d) | None \<Rightarrow> JNull)),
      (''sunset-header'',
         (case sunset_datetime of Some d \<Rightarrow> JStr (isoformat d) | None \<Rightarrow> JNull))]"

text \<open>
  \<^verbatim>\<open>new_message == message\<close>: a dict equals another dict with the same keys and equal
  values, and nothing else. The values of \<^verbatim>\<open>new_message\<close> are strings, \<^verbatim>\<open>None\<close> and
  lists of strings; for these Python's equality is equality of the values.
\<close>

definition py_dict_eq :: "(string \<times> json) list \<Rightarrow> json \<Rightarrow> bool" where
  "py_dict_eq d message =
     (case message of
        JObj kvs \<Rightarrow>
          set (map fst d) = set (map fst kvs)
          \<and> list_all (\<lambda>k. map_of d k = map_of kvs k) (map fst d)
      | _ \<Rightarrow> False)"

text \<open>
  \<open>send_deprecation_webhook_slack\<close>: the webhook call, whose response is not looked at,
  then the history file read, extended by one entry and written back. When the call or
  \<^verbatim>\<open>json.load\<close> raises, or the content has no \<^verbatim>\<open>append\<close>, nothing is written.
  The write is outside any \<^verbatim>\<open>try\<close>: when it raises, the call has been made and the
  entry is not recorded.
\<close>

definition send_deprecation_webhook_slack ::
  "'w http \<Rightarrow> Slack_Configuration \<Rightarrow> string \<Rightarrow> string \<Rightarrow> string list option \<Rightarrow>
   'tz datetime option \<Rightarrow> 'tz datetime option \<Rightarrow> 'w world \<Rightarrow> (error + unit) \<times> 'w world" where
  "send_deprecation_webhook_slack http config deprecation_url http_method deprecated_parameter
     deprecation_datetime sunset_datetime s =
     (case http (net s) (slack_request config deprecation_url http_method deprecated_parameter
                           deprecation_datetime sunset_datetime) of
        (Inl e, w) \<Rightarrow> (Inl e, s\<lparr>net := w\<rparr>)
      | (Inr response, w) \<Rightarrow>
          (case (case files s (file_path config) of
                   None \<Rightarrow> Inr (JList [])
                 | Some loaded \<Rightarrow> loaded) of
             Inl e \<Rightarrow> (Inl e, s\<lparr>net := w\<rparr>)
           | Inr (JList old_messages) \<Rightarrow>
               (case writes s (file_path config) of
                  Written \<Rightarrow>
                    (Inr (),
                     s\<lparr>net := w,
                       files := (files s)(file_path config \<mapsto>
                         Inr (JList (old_messages @
                           [JObj (new_message deprecation_url http_method deprecated_parameter
                                    deprecation_datetime sunset_datetime)])))\<rparr>)
                | Open_raises \<Rightarrow> (Inl OSError, s\<lparr>net := w\<rparr>)
                | Dump_raises \<Rightarrow>
                    (Inl OSError,
                     s\<lparr>net := w,
                       files := (files s)(file_path config \<mapsto> Inl JSONDecodeError)\<rparr>))
           | Inr _ \<Rightarrow> (Inl AttributeError, s\<lparr>net := w\<rparr>)))"

text \<open>
  \<open>check_if_already_send\<close>: \<^verbatim>\<open>False\<close> when the file does not exist, otherwise whether
  some value visited by the loop equals \<^verbatim>\<open>new_message\<close>. It changes nothing.
\<close>

definition check_if_already_send ::
  "Slack_Configuration \<Rightarrow> string \<Rightarrow> string \<Rightarrow> string list option \<Rightarrow> 'tz datetime option \<Rightarrow>
   'tz datetime option \<Rightarrow> 'w world \<Rightarrow> error + bool" where
  "check_if_already_send config deprecation_url http_method deprecated_parameter
     deprecation_datetime sunset_datetime s =
     (case files s (file_path config) of
        None \<Rightarrow> Inr False
      | Some loaded \<Rightarrow>
          and_then loaded (\<lambda>old_messages.
          and_then (py_iter old_messages) (\<lambda>messages.
          Inr (list_ex (py_dict_eq (new_message deprecation_url http_method
                 deprecated_parameter deprecation_datetime sunset_datetime)) messages))))"

text \<open>
  Modelled from the spec: the caller that runs the Slack sink is not among the source
  files. The emit-then-record sequence is \<open>check_if_already_send\<close>, then
  \<open>send_deprecation_webhook_slack\<close> only if the check returned \<^verbatim>\<open>False\<close>.
\<close>

definition slack_emit_then_record ::
  "'w http \<Rightarrow> Slack_Configuration \<Rightarrow> string \<Rightarrow> string \<Rightarrow> string list option \<Rightarrow>
   'tz datetime option \<Rightarrow> 'tz datetime option \<Rightarrow> 'w world \<Rightarrow> (error + unit) \<times> 'w world" where
  "slack_emit_then_record http config deprecation_url http_method deprecated_parameter
     deprecation_datetime sunset_datetime s =
     (case check_if_already_send config deprecation_url http_method deprecated_parameter
             deprecation_datetime sunset_datetime s of
        Inl e \<Rightarrow> (Inl e, s)
      | Inr True \<Rightarrow> (Inr (), s)
      | Inr False \<Rightarrow>
          send_deprecation_webhook_slack http config deprecation_url http_method
            deprecated_parameter deprecation_datetime sunset_datetime s)"

text \<open>
  The entries that the next send extends: none yet when the file is missing, the list a
  file holds, and nothing to extend when the file holds anything else.
\<close>

definition history :: "'w world \<Rightarrow> string \<Rightarrow> json list option" where
  "history s path =
     (case files s path of
        None \<Rightarrow> Some []
      | Some (Inr (JList messages)) \<Rightarrow> Some messages
      | Some _ \<Rightarrow> None)"

text \<open>An event without timestamps, for the examples.\<close>

abbreviation (input) no_datetime :: "unit datetime option" where
  "no_datetime \<equiv> None"

text \<open>
  An example: a webhook that answers every call, and no file at all, in a directory that
  can be written. In the second world the directory of the history file is missing.
\<close>

definition example_http :: "unit http" where
  "example_http w r = (Inr (Response (Inr (JStr ''ok''))), w)"

definition example_world :: "unit world" where
  "example_world = \<lparr>net = (), files = (\<lambda>path. None), writes = (\<lambda>path. Written)\<rparr>"

definition example_world_no_directory :: "unit world" where
  "example_world_no_directory =
     \<lparr>net = (), files = (\<lambda>path. None), writes = (\<lambda>path. Open_raises)\<rparr>"

definition example_slack :: Slack_Configuration where
  "example_slack =
     \<lparr>webhook_url = ''https://hooks.slack.test/T0'', attachment_color = ''#fca103'',
      file_path = ''slack_messages.json''\<rparr>"

section \<open>jira.py: the Jira sink\<close>

record JIRA_Configuration =
  API_URL :: string
  API_TOKEN :: string
  USER_EMAIL :: string
  DEPRECATION_ISSUE_TYPE_KEY :: string
  DEPRECATION_ISSUE_TYPE_ID :: string
  PROJECT_KEY :: string
  PROJECT_ID :: string
  DEPRECATION_URL_FIELD :: string
  DEPRECATION_URL_FIELD_NAME :: string
  DEPRECATION_HTTP_FIELD :: string
  DEPRECATION_HTTP_FIELD_NAME :: string
  SUNSET_HTTP_FIELD :: string
  SUNSET_HTTP_FIELD_NAME :: string
  HTTP_METHOD_FIELD :: string
  HTTP_METHOD_FIELD_NAME :: string
  DEPRECATED_PARAMETER_FIELD :: string
  DEPRECATED_PARAMETER_FIELD_NAME :: string
  BASE64_AUTH :: "string option"

text \<open>The double quote, for the texts that contain it.\<close>

definition dq :: string where
  "dq = [CHR 0x22]"

text \<open>The header of every Jira call; \<^verbatim>\<open>"Basic %s" % None\<close> prints \<^verbatim>\<open>None\<close>.\<close>

definition jira_header :: "JIRA_Configuration \<Rightarrow> (string \<times> string) list" where
  "jira_header config =
     [(''Content-Type'', ''application/json''),
      (''Accept'', ''application/json''),
      (''Authorization'',
         ''Basic '' @ (case BASE64_AUTH config of None \<Rightarrow> ''None'' | Some auth \<Rightarrow> auth))]"

text \<open>
  The parts of \<^verbatim>\<open>queryString\<close>: the base filter, the clause added for a timestamp, and
  the clause that restricts to issues whose parameter field is empty.
\<close>

definition base_query :: "JIRA_Configuration \<Rightarrow> string \<Rightarrow> string \<Rightarrow> string" where
  "base_query config deprecation_url http_method =
     ''type = '' @ DEPRECATION_ISSUE_TYPE_KEY config
     @ '' AND project = '' @ PROJECT_KEY config
     @ '' AND '' @ dq @ lower (DEPRECATION_URL_FIELD_NAME config) @ ''[url field]'' @ dq
     @ '' = '' @ dq @ deprecation_url @ dq
     @ '' AND '' @ dq @ lower (HTTP_METHOD_FIELD_NAME config) @ ''[short text]'' @ dq
     @ '' ~ '' @ dq @ upper http_method @ dq
     @ '' AND status != Done''"

definition timestamp_clause :: "string \<Rightarrow> string \<Rightarrow> string" where
  "timestamp_clause field_name stamp =
     '' AND '' @ dq @ lower field_name @ ''[time stamp]'' @ dq @ '' >= '' @ dq @ stamp @ dq
     @ '' AND '' @ dq @ lower field_name @ ''[time stamp]'' @ dq @ '' <= '' @ dq @ stamp @ dq"

definition empty_parameter_clause :: "JIRA_Configuration \<Rightarrow> string" where
  "empty_parameter_clause config =
     '' AND '' @ dq @ lower (DEPRECATED_PARAMETER_FIELD_NAME config) @ ''[labels]'' @ dq
     @ '' is EMPTY''"

text \<open>
  \<^verbatim>\<open>queryString\<close> after the three optional additions, for the time zone \<open>tz\<close> of the
  server. The last one is guarded by \<^verbatim>\<open>deprecated_parameter == None\<close>.
\<close>

definition query_string ::
  "'tz \<Rightarrow> JIRA_Configuration \<Rightarrow> string \<Rightarrow> string \<Rightarrow> string list option \<Rightarrow>
   'tz datetime option \<Rightarrow> 'tz datetime option \<Rightarrow> string" where
  "query_string tz config deprecation_url http_method deprecated_parameter
     deprecation_datetime sunset_datetime =
     base_query config deprecation_url http_method
     @ (case deprecation_datetime of
          Some d \<Rightarrow> timestamp_clause (DEPRECATION_HTTP_FIELD_NAME config) (minute_in d tz)
        | None \<Rightarrow> [])
     @ (case sunset_datetime of
          Some d \<Rightarrow> timestamp_clause (SUNSET_HTTP_FIELD_NAME config) (minute_in d tz)
        | None \<Rightarrow> [])
     @ (if deprecated_parameter = None then empty_parameter_clause config else [])"

definition server_info_request :: "JIRA_Configuration \<Rightarrow> request" where
  "server_info_request config =
     \<lparr>verb = ''GET'', url = API_URL config @ ''/3/serverInfo'', query_fields = [],
      headers = jira_header config, body = None\<rparr>"

definition search_request :: "JIRA_Configuration \<Rightarrow> string \<Rightarrow> request" where
  "search_request config queryString =
     \<lparr>verb = ''GET'', url = API_URL config @ ''/3/search/jql'',
      query_fields = [(''jql'', queryString), (''fields'', ''*all'')],
      headers = jira_header config, body = None\<rparr>"

text \<open>
  The update that adds one parameter. The issue id is printed into the URL: a string as
  it is, any other value by Python's \<^verbatim>\<open>str\<close>, the parameter \<open>py_str\<close>.
\<close>

definition add_request :: "(json \<Rightarrow> string) \<Rightarrow> JIRA_Configuration \<Rightarrow> json \<Rightarrow> string \<Rightarrow> request" where
  "add_request py_str config issue_id param =
     \<lparr>verb = ''PUT'',
      url = API_URL config @ ''/3/issue/''
            @ (case issue_id of JStr text \<Rightarrow> text | other \<Rightarrow> py_str other),
      query_fields = [],
      headers = jira_header config,
      body = Some (JObj [(''update'',
               JObj [(DEPRECATED_PARAMETER_FIELD config, JList [JObj [(''add'', JStr param)]])])])\<rparr>"

text \<open>\<^verbatim>\<open>container[0]\<close>.\<close>

definition py_first :: "json \<Rightarrow> error + json" where
  "py_first container =
     (case container of
        JList xs \<Rightarrow> (case xs of [] \<Rightarrow> Inl IndexError | x # rest \<Rightarrow> Inr x)
      | JStr s \<Rightarrow> (case s of [] \<Rightarrow> Inl IndexError | c # rest \<Rightarrow> Inr (JStr [c]))
      | JObj kvs \<Rightarrow> Inl KeyError
      | _ \<Rightarrow> Inl TypeError)"

text \<open>
  The loop over \<^verbatim>\<open>deprecated_parameter\<close>: a parameter that is not in the issue's field
  is added by a call of its own; the field read before the loop is not read again. An
  exception leaves the loop with the calls made so far done.
\<close>

fun add_missing ::
  "'w http \<Rightarrow> (json \<Rightarrow> string) \<Rightarrow> JIRA_Configuration \<Rightarrow> json \<Rightarrow> json \<Rightarrow> string list \<Rightarrow> 'w \<Rightarrow>
   (error + unit) \<times> 'w" where
  "add_missing http py_str config issue query_deprecated_parameter [] w = (Inr (), w)"
| "add_missing http py_str config issue query_deprecated_parameter (param # rest) w =
     (case py_contains param query_deprecated_parameter of
        Inl e \<Rightarrow> (Inl e, w)
      | Inr True \<Rightarrow> add_missing http py_str config issue query_deprecated_parameter rest w
      | Inr False \<Rightarrow>
          (case py_getitem issue ''id'' of
             Inl e \<Rightarrow> (Inl e, w)
           | Inr issue_id \<Rightarrow>
               (case http w (add_request py_str config issue_id param) of
                  (Inl e, w') \<Rightarrow> (Inl e, w')
                | (Inr response, w') \<Rightarrow>
                    add_missing http py_str config issue query_deprecated_parameter rest w')))"

text \<open>
  The last block of \<open>check_if_issue_exists\<close>, on the decoded answer of the search.
  \<^verbatim>\<open>x == []\<close> holds for the empty list only.
\<close>

definition decide_exists ::
  "'w http \<Rightarrow> (json \<Rightarrow> string) \<Rightarrow> JIRA_Configuration \<Rightarrow> string list option \<Rightarrow> json \<Rightarrow> 'w \<Rightarrow>
   (error + bool) \<times> 'w" where
  "decide_exists http py_str config deprecated_parameter response_data w =
     (case py_getitem response_data ''issues'' of
        Inl e \<Rightarrow> (Inl e, w)
      | Inr issues \<Rightarrow>
          if \<not> given deprecated_parameter \<or> issues = JList [] then (Inr (issues \<noteq> JList []), w)
          else
            (case and_then (py_first issues) (\<lambda>issue.
                    and_then (py_getitem issue ''fields'') (\<lambda>issue_fields.
                    and_then (py_getitem issue_fields (DEPRECATED_PARAMETER_FIELD config))
                      (\<lambda>query_deprecated_parameter. Inr (issue, query_deprecated_parameter)))) of
               Inl e \<Rightarrow> (Inl e, w)
             | Inr (issue, query_deprecated_parameter) \<Rightarrow>
                 (case add_missing http py_str config issue query_deprecated_parameter
                         (case deprecated_parameter of Some ps \<Rightarrow> ps | None \<Rightarrow> []) w of
                    (Inl e, w') \<Rightarrow> (Inl e, w')
                  | (Inr done, w') \<Rightarrow> (Inr True, w'))))"

text \<open>
  \<open>check_if_issue_exists\<close>. \<open>strptime\<close> is the time zone that
  \<^verbatim>\<open>datetime.strptime(text, "%Y-%m-%dT%H:%M:%S.%f%z")\<close> reads from the server time, or
  the \<^verbatim>\<open>ValueError\<close> it raises; it is a parameter.
\<close>

definition check_if_issue_exists ::
  "(string \<Rightarrow> error + 'tz) \<Rightarrow> (json \<Rightarrow> string) \<Rightarrow> 'w http \<Rightarrow> JIRA_Configuration \<Rightarrow> string \<Rightarrow>
   string \<Rightarrow> string list option \<Rightarrow> 'tz datetime option \<Rightarrow> 'tz datetime option \<Rightarrow> 'w \<Rightarrow>
   (error + bool) \<times> 'w" where
  "check_if_issue_exists strptime py_str http config deprecation_url http_method
     deprecated_parameter deprecation_datetime sunset_datetime w =
     (case http w (server_info_request config) of
        (Inl e, w1) \<Rightarrow> (Inl e, w1)
      | (Inr info_response, w1) \<Rightarrow>
          (case and_then (json_of info_response) (\<lambda>info.
                  and_then (py_getitem info ''serverTime'') (\<lambda>server_datetime_string.
                  case server_datetime_string of
                    JStr text \<Rightarrow> strptime text
                  | _ \<Rightarrow> Inl TypeError)) of
             Inl e \<Rightarrow> (Inl e, w1)
           | Inr tz \<Rightarrow>
               (case http w1 (search_request config
                       (query_string tz config deprecation_url http_method deprecated_parameter
                          deprecation_datetime sunset_datetime)) of
                  (Inl e, w2) \<Rightarrow> (Inl e, w2)
                | (Inr search_response, w2) \<Rightarrow>
                    (case json_of search_response of
                       Inl e \<Rightarrow> (Inl e, w2)
                     | Inr response_data \<Rightarrow>
                         decide_exists http py_str config deprecated_parameter
                           response_data w2))))"

text \<open>
  An issue on which the loop can run: it has an id, and its parameter field is a list.
\<close>

definition mergeable :: "JIRA_Configuration \<Rightarrow> json \<Rightarrow> bool" where
  "mergeable config issue =
     (case py_getitem issue ''id'' of
        Inl e \<Rightarrow> False
      | Inr issue_id \<Rightarrow>
          (case and_then (py_getitem issue ''fields'') (\<lambda>issue_fields.
                  py_getitem issue_fields (DEPRECATED_PARAMETER_FIELD config)) of
             Inr (JList labels) \<Rightarrow> True
           | _ \<Rightarrow> False))"


definition sent_jql :: "request list \<Rightarrow> string list" where
  "sent_jql log =
     concat (map (\<lambda>r. map snd (filter (\<lambda>kv. fst kv = ''jql'') (query_fields r))) log)"

text \<open>
  An example: a tracker without state that reports its time, answers every search with
  the given issues and accepts every update.
\<close>

definition example_jira :: JIRA_Configuration where
  "example_jira =
     \<lparr>API_URL = ''https://jira.test/rest/api'', API_TOKEN = ''token'',
      USER_EMAIL = ''dev@jira.test'', DEPRECATION_ISSUE_TYPE_KEY = ''Deprecation'',
      DEPRECATION_ISSUE_TYPE_ID = ''10001'', PROJECT_KEY = ''API'', PROJECT_ID = ''10000'',
      DEPRECATION_URL_FIELD = ''customfield_1'', DEPRECATION_URL_FIELD_NAME = ''Deprecation URL'',
      DEPRECATION_HTTP_FIELD = ''customfield_2'', DEPRECATION_HTTP_FIELD_NAME = ''Deprecation'',
      SUNSET_HTTP_FIELD = ''customfield_3'', SUNSET_HTTP_FIELD_NAME = ''Sunset'',
      HTTP_METHOD_FIELD = ''customfield_4'', HTTP_METHOD_FIELD_NAME = ''HTTP Method'',
      DEPRECATED_PARAMETER_FIELD = ''customfield_5'',
      DEPRECATED_PARAMETER_FIELD_NAME = ''Deprecated Parameter'',
      BASE64_AUTH = Some ''ZGV2QGppcmEudGVzdDp0b2tlbg==''\<rparr>"

definition example_tracker :: "json list \<Rightarrow> unit http" where
  "example_tracker issues w r =
     (if verb r = ''GET'' \<and> query_fields r = [] then
        (Inr (Response (Inr (JObj [(''serverTime'', JStr ''2024-05-01T10:00:00.000+0200'')]))), w)
      else if verb r = ''GET'' then
        (Inr (Response (Inr (JObj [(''issues'', JList issues)]))), w)
      else (Inr (Response (Inl JSONDecodeError)), w))"

definition example_strptime :: "string \<Rightarrow> error + unit" where
  "example_strptime text = Inr ()"

definition example_py_str :: "json \<Rightarrow> string" where
  "example_py_str v = ''None''"

definition example_issue :: json where
  "example_issue =
     JObj [(''id'', JStr ''10042''),
           (''fields'', JObj [(''customfield_5'', JList [JStr ''limit''])])]"

section \<open>Properties of the detection functions\<close>

lemma and_then_Inr: "and_then (Inr x) f = f x"
  by (simp add: and_then_def)

lemma and_then_Inl: "and_then (Inl e) f = Inl e"
  by (simp add: and_then_def)

lemma contains_obj: "py_contains k (JObj kvs) = Inr (map_of kvs k \<noteq> None)"
  by (simp add: py_contains_def map_of_eq_None_iff)

lemma getitem_obj_some: "map_of kvs k = Some v \<Longrightarrow> py_getitem (JObj kvs) k = Inr v"
  by (simp add: py_getitem_def)

lemma getitem_obj_none: "map_of kvs k = None \<Longrightarrow> py_getitem (JObj kvs) k = Inl KeyError"
  by (simp add: py_getitem_def)

lemma find_operation_SomeD:
  assumes "spec_find_operation oas path method = Some operation"
  obtains doc paths methods where "oas = JObj doc" "map_of doc ''paths'' = Some (JObj paths)"
    "map_of paths path = Some (JObj methods)" "map_of methods (lower method) = Some operation"
  using assms unfolding spec_find_operation_def
  by (auto split: json.splits option.splits)

lemma is_operation_deprecated_found:
  assumes "spec_find_operation oas path method = Some (JObj operation)"
  shows "is_operation_deprecated oas path method =
           Inr (case map_of operation ''deprecated'' of None \<Rightarrow> JBool False | Some flag \<Rightarrow> flag)"
proof -
  from assms obtain doc paths methods where
    "oas = JObj doc" "map_of doc ''paths'' = Some (JObj paths)"
    "map_of paths path = Some (JObj methods)"
    "map_of methods (lower method) = Some (JObj operation)"
    by (rule find_operation_SomeD)
  then show ?thesis
    by (cases "map_of operation ''deprecated''")
      (simp_all add: is_operation_deprecated_def contains_obj getitem_obj_some
        getitem_obj_none and_then_Inr)
qed

lemma parameter_flagged_wf:
  assumes "wf_parameter p"
  shows "parameter_flagged requested p = Inr (spec_flagged requested p)"
proof -
  from assms obtain kvs where p: "p = JObj kvs"
    by (auto simp: wf_parameter_def split: json.splits)
  show ?thesis
  proof (cases "map_of kvs ''deprecated''")
    case None
    then show ?thesis
      by (simp add: p parameter_flagged_def contains_obj and_then_Inr spec_flagged_def
          param_field_def)
  next
    case (Some d)
    with assms p obtain b where d: "d = JBool b"
      by (auto simp: wf_parameter_def split: json.splits)
    show ?thesis
    proof (cases b)
      case False
      with Some d show ?thesis
        by (simp add: p parameter_flagged_def contains_obj and_then_Inr getitem_obj_some
            spec_flagged_def param_field_def)
    next
      case True
      with assms p Some d obtain n l where
        n: "map_of kvs ''name'' = Some n" and l: "map_of kvs ''in'' = Some l"
        by (auto simp: wf_parameter_def)
      with Some d True show ?thesis
        by (cases n)
          (auto simp: p parameter_flagged_def contains_obj and_then_Inr getitem_obj_some
            spec_flagged_def param_field_def)
    qed
  qed
qed

lemma spec_flagged_name:
  assumes "spec_flagged requested p"
  obtains n where "param_field p ''name'' = Some (JStr n)" "py_getitem p ''name'' = Inr (JStr n)"
proof -
  from assms obtain kvs where p: "p = JObj kvs"
    by (cases p) (simp_all add: spec_flagged_def param_field_def)
  from assms p obtain v where v: "map_of kvs ''name'' = Some v"
    by (cases "map_of kvs ''name''") (simp_all add: spec_flagged_def param_field_def)
  from assms p v obtain n where "v = JStr n"
    by (cases v) (simp_all add: spec_flagged_def param_field_def)
  with p v that show thesis
    by (simp add: param_field_def py_getitem_def)
qed

text \<open>The loop computes the specification's subset, appended to what it started with.\<close>

lemma collect_deprecated_wf:
  assumes "\<forall>p \<in> set declared. wf_parameter p"
  shows "collect_deprecated requested declared acc =
           Inr (acc @ spec_deprecated_subset requested declared)"
  using assms
proof (induction declared arbitrary: acc)
  case Nil
  then show ?case by (simp add: spec_deprecated_subset_def)
next
  case (Cons p ps)
  then have wf: "wf_parameter p" and rest: "\<forall>q \<in> set ps. wf_parameter q" by simp_all
  note IH = Cons.IH [OF rest]
  show ?case
  proof (cases "spec_flagged requested p")
    case True
    then obtain n where "param_field p ''name'' = Some (JStr n)"
      "py_getitem p ''name'' = Inr (JStr n)"
      by (rule spec_flagged_name)
    with True show ?thesis
      by (simp add: parameter_flagged_wf [OF wf] and_then_Inr IH spec_deprecated_subset_def)
  next
    case False
    then show ?thesis
      by (simp add: parameter_flagged_wf [OF wf] and_then_Inr IH spec_deprecated_subset_def)
  qed
qed

lemma are_parameter_deprecated_found:
  assumes "spec_find_operation oas path method = Some (JObj operation)"
    and "map_of operation ''parameters'' = Some (JList declared)"
    and "\<forall>p \<in> set declared. wf_parameter p"
  shows "are_parameter_deprecated oas path method requested =
           Inr (spec_deprecated_subset requested declared \<noteq> [],
                spec_deprecated_subset requested declared)"
proof -
  from assms(1) obtain doc paths methods where
    "oas = JObj doc" "map_of doc ''paths'' = Some (JObj paths)"
    "map_of paths path = Some (JObj methods)"
    "map_of methods (lower method) = Some (JObj operation)"
    by (rule find_operation_SomeD)
  with assms(2) show ?thesis
    by (simp add: are_parameter_deprecated_def contains_obj getitem_obj_some and_then_Inr
        py_iter_def collect_deprecated_wf [OF assms(3)])
qed

lemma are_parameter_deprecated_no_parameters:
  assumes "spec_find_operation oas path method = Some (JObj operation)"
    and "map_of operation ''parameters'' = None"
  shows "are_parameter_deprecated oas path method requested = Inl KeyError"
proof -
  from assms(1) obtain doc paths methods where
    "oas = JObj doc" "map_of doc ''paths'' = Some (JObj paths)"
    "map_of paths path = Some (JObj methods)"
    "map_of methods (lower method) = Some (JObj operation)"
    by (rule find_operation_SomeD)
  with assms(2) show ?thesis
    by (simp add: are_parameter_deprecated_def contains_obj getitem_obj_some and_then_Inr)
qed

lemma spec_deprecated_subset_origin:
  assumes "n \<in> set (spec_deprecated_subset requested declared)"
  shows "\<exists>p \<in> set declared. param_field p ''name'' = Some n \<and> spec_flagged requested p"
  using assms
  by (induction declared) (auto simp: spec_deprecated_subset_def split: if_splits option.splits)

text \<open>
  Claim C1. When the document holds an operation object under the path and the lowercased
  method, \<open>is_operation_deprecated\<close> returns the value stored under its
  \<^verbatim>\<open>deprecated\<close> key, and \<^verbatim>\<open>False\<close> when the key is absent. The letter case of the
  method does not matter: two methods with the same lowercase form give the same result.
\<close>

theorem is_operation_deprecated_returns_stored_flag:
  assumes "spec_find_operation oas path method = Some (JObj operation)"
  shows "is_operation_deprecated oas path method =
           Inr (case map_of operation ''deprecated'' of None \<Rightarrow> JBool False | Some flag \<Rightarrow> flag)
         \<and> (\<forall>method'. lower method' = lower method \<longrightarrow>
               is_operation_deprecated oas path method' = is_operation_deprecated oas path method)"
proof
  show "is_operation_deprecated oas path method =
           Inr (case map_of operation ''deprecated'' of None \<Rightarrow> JBool False | Some flag \<Rightarrow> flag)"
    using assms by (rule is_operation_deprecated_found)
  show "\<forall>method'. lower method' = lower method \<longrightarrow>
          is_operation_deprecated oas path method' = is_operation_deprecated oas path method"
  proof (intro allI impI)
    fix method'
    assume same: "lower method' = lower method"
    show "is_operation_deprecated oas path method' = is_operation_deprecated oas path method"
      by (simp only: is_operation_deprecated_def same)
  qed
qed

theorem is_operation_deprecated_returns_stored_flag_witness:
  "spec_find_operation example_oas ''/users'' ''GET'' = Some (JObj example_get)
   \<and> is_operation_deprecated example_oas ''/users'' ''GET'' = Inr (JBool True)
   \<and> is_operation_deprecated example_oas ''/users'' ''get'' = Inr (JBool True)"
proof -
  have h: "spec_find_operation example_oas ''/users'' ''GET'' = Some (JObj example_get)"
    by code_simp
  have l: "lower ''get'' = lower ''GET''"
    by code_simp
  from is_operation_deprecated_returns_stored_flag [OF h] l
  have "is_operation_deprecated example_oas ''/users'' ''GET'' = Inr (JBool True)"
    and "is_operation_deprecated example_oas ''/users'' ''get'' =
         is_operation_deprecated example_oas ''/users'' ''GET''"
    by (simp_all add: example_get_def)
  with h show ?thesis by simp
qed

text \<open>
  Claim C2. For an operation that exists and carries a list of well-formed parameter
  objects, \<open>are_parameter_deprecated\<close> returns \<open>(l \<noteq> [], l)\<close> where \<open>l\<close> is the
  specification's subset: the names of the declared parameters that are marked deprecated,
  requested and located in the query, in declaration order. Every name in \<open>l\<close> comes
  from a declared query parameter, so a deprecated header or path parameter contributes
  nothing.
\<close>

theorem are_parameter_deprecated_intersection:
  assumes "spec_find_operation oas path method = Some (JObj operation)"
    and "map_of operation ''parameters'' = Some (JList declared)"
    and "\<forall>p \<in> set declared. wf_parameter p"
  shows "are_parameter_deprecated oas path method requested =
           Inr (spec_deprecated_subset requested declared \<noteq> [],
                spec_deprecated_subset requested declared)
         \<and> (\<forall>n \<in> set (spec_deprecated_subset requested declared).
               \<exists>p \<in> set declared.
                 param_field p ''name'' = Some n
                 \<and> n \<in> set (map JStr requested)
                 \<and> param_field p ''deprecated'' = Some (JBool True)
                 \<and> param_field p ''in'' = Some (JStr ''query''))"
proof
  show "are_parameter_deprecated oas path method requested =
           Inr (spec_deprecated_subset requested declared \<noteq> [],
                spec_deprecated_subset requested declared)"
    using assms by (rule are_parameter_deprecated_found)
  show "\<forall>n \<in> set (spec_deprecated_subset requested declared).
               \<exists>p \<in> set declared.
                 param_field p ''name'' = Some n
                 \<and> n \<in> set (map JStr requested)
                 \<and> param_field p ''deprecated'' = Some (JBool True)
                 \<and> param_field p ''in'' = Some (JStr ''query'')"
  proof
    fix n
    assume "n \<in> set (spec_deprecated_subset requested declared)"
    then obtain p where p: "p \<in> set declared" "param_field p ''name'' = Some n"
      "spec_flagged requested p"
      using spec_deprecated_subset_origin by blast
    from p(2,3) have "n \<in> set (map JStr requested)"
      by (cases n) (auto simp: spec_flagged_def)
    with p show "\<exists>p \<in> set declared.
                 param_field p ''name'' = Some n
                 \<and> n \<in> set (map JStr requested)
                 \<and> param_field p ''deprecated'' = Some (JBool True)
                 \<and> param_field p ''in'' = Some (JStr ''query'')"
      by (auto simp: spec_flagged_def)
  qed
qed

theorem are_parameter_deprecated_intersection_witness:
  "spec_find_operation example_oas ''/users'' ''GET'' = Some (JObj example_get)
   \<and> map_of example_get ''parameters'' = Some (JList example_parameters)
   \<and> list_all wf_parameter example_parameters
   \<and> are_parameter_deprecated example_oas ''/users'' ''GET'' [''page'', ''after'', ''id'', ''limit'']
       = Inr (True, [JStr ''limit'', JStr ''after''])"
proof -
  have h1: "spec_find_operation example_oas ''/users'' ''GET'' = Some (JObj example_get)"
    by code_simp
  have h2: "map_of example_get ''parameters'' = Some (JList example_parameters)"
    by (simp add: example_get_def)
  have h3: "\<forall>p \<in> set example_parameters. wf_parameter p"
    by code_simp
  have s: "spec_deprecated_subset [''page'', ''after'', ''id'', ''limit''] example_parameters
             = [JStr ''limit'', JStr ''after'']"
    by code_simp
  from are_parameter_deprecated_intersection [OF h1 h2 h3, of "[''page'', ''after'', ''id'', ''limit'']"]
  have "are_parameter_deprecated example_oas ''/users'' ''GET'' [''page'', ''after'', ''id'', ''limit'']
       = Inr (True, [JStr ''limit'', JStr ''after''])"
    by (simp add: s)
  with h1 h2 h3 show ?thesis by (simp add: list_all_iff)
qed

lemma wf_oas_shape:
  assumes "wf_oas oas"
  shows "\<exists>doc paths. oas = JObj doc \<and> map_of doc ''paths'' = Some (JObj paths) \<and>
    (\<forall>path item. map_of paths path = Some item \<longrightarrow>
       (\<exists>methods. item = JObj methods \<and>
         (\<forall>m operation. map_of methods m = Some operation \<longrightarrow> wf_operation operation)))"
proof -
  from assms obtain doc where doc: "oas = JObj doc"
    by (cases oas) (simp_all add: wf_oas_def)
  from assms doc obtain pv where pv: "map_of doc ''paths'' = Some pv"
    by (cases "map_of doc ''paths''") (simp_all add: wf_oas_def)
  from assms doc pv obtain paths where paths: "pv = JObj paths"
    by (cases pv) (simp_all add: wf_oas_def)
  from assms doc pv paths have all:
    "list_all (\<lambda>path_item. case snd path_item of
         JObj methods \<Rightarrow> list_all (\<lambda>m. wf_operation (snd m)) methods | _ \<Rightarrow> False) paths"
    by (simp add: wf_oas_def)
  have "\<exists>methods. item = JObj methods \<and>
         (\<forall>m operation. map_of methods m = Some operation \<longrightarrow> wf_operation operation)"
    if "map_of paths path = Some item" for path item
  proof -
    from that have "(path, item) \<in> set paths" by (rule map_of_SomeD)
    with all have c: "case item of
         JObj methods \<Rightarrow> list_all (\<lambda>m. wf_operation (snd m)) methods | _ \<Rightarrow> False"
      by (auto simp: list_all_iff)
    then obtain methods where m: "item = JObj methods"
      by (cases item) simp_all
    with c have "list_all (\<lambda>m. wf_operation (snd m)) methods" by simp
    then have "\<forall>m operation. map_of methods m = Some operation \<longrightarrow> wf_operation operation"
      by (auto simp: list_all_iff dest!: map_of_SomeD)
    with m show ?thesis by blast
  qed
  with doc pv paths show ?thesis by blast
qed

lemma wf_oas_absent:
  assumes "wf_oas oas" and "spec_find_operation oas path method = None"
  shows "is_operation_deprecated oas path method = Inl KeyError
         \<and> are_parameter_deprecated oas path method requested = Inl KeyError"
proof -
  from wf_oas_shape [OF assms(1)] obtain doc paths where
    s: "oas = JObj doc" "map_of doc ''paths'' = Some (JObj paths)"
    and items: "\<forall>path item. map_of paths path = Some item \<longrightarrow>
       (\<exists>methods. item = JObj methods \<and>
         (\<forall>m operation. map_of methods m = Some operation \<longrightarrow> wf_operation operation))"
    by blast
  show ?thesis
  proof (cases "map_of paths path")
    case None
    with s show ?thesis
      by (simp add: is_operation_deprecated_def are_parameter_deprecated_def contains_obj
          getitem_obj_some and_then_Inr)
  next
    case (Some item)
    with items obtain methods where m: "item = JObj methods" by blast
    with assms(2) s Some have "map_of methods (lower method) = None"
      by (simp add: spec_find_operation_def)
    with s Some m show ?thesis
      by (simp add: is_operation_deprecated_def are_parameter_deprecated_def contains_obj
          getitem_obj_some and_then_Inr)
  qed
qed

lemma wf_oas_present:
  assumes "wf_oas oas" and "spec_find_operation oas path method = Some operation"
  shows "wf_operation operation"
proof -
  from wf_oas_shape [OF assms(1)] obtain doc paths where
    s: "oas = JObj doc" "map_of doc ''paths'' = Some (JObj paths)"
    and items: "\<forall>path item. map_of paths path = Some item \<longrightarrow>
       (\<exists>methods. item = JObj methods \<and>
         (\<forall>m operation. map_of methods m = Some operation \<longrightarrow> wf_operation operation))"
    by blast
  from assms(2) obtain doc' paths' methods where
    "oas = JObj doc'" "map_of doc' ''paths'' = Some (JObj paths')"
    "map_of paths' path = Some (JObj methods)" "map_of methods (lower method) = Some operation"
    by (rule find_operation_SomeD)
  with s have "map_of paths path = Some (JObj methods)"
    and f: "map_of methods (lower method) = Some operation" by simp_all
  with items show ?thesis by blast
qed

lemma wf_operation_shape:
  assumes "wf_operation operation"
  obtains fields where "operation = JObj fields"
    "map_of fields ''parameters'' = None \<or>
     (\<exists>declared. map_of fields ''parameters'' = Some (JList declared)
        \<and> (\<forall>p \<in> set declared. wf_parameter p))"
proof -
  from assms obtain fields where f: "operation = JObj fields"
    by (cases operation) (simp_all add: wf_operation_def)
  show thesis
  proof (cases "map_of fields ''parameters''")
    case None
    with f that show thesis by blast
  next
    case (Some v)
    with assms f obtain declared where "v = JList declared"
      by (cases v) (simp_all add: wf_operation_def)
    with assms f Some have "map_of fields ''parameters'' = Some (JList declared)"
      "\<forall>p \<in> set declared. wf_parameter p"
      by (simp_all add: wf_operation_def list_all_iff)
    with f that show thesis by blast
  qed
qed

text \<open>
  Claim C3. On a well-formed document both functions raise \<^verbatim>\<open>KeyError\<close> when the path
  or the lowercased method is absent, and \<open>is_operation_deprecated\<close> returns a value
  otherwise; \<open>are_parameter_deprecated\<close> raises \<^verbatim>\<open>KeyError\<close> as well when the
  operation has no \<^verbatim>\<open>parameters\<close> key, returns a value when it has one, and returns
  \<open>(False, [])\<close> when the value of that key is the empty list.
\<close>

theorem detection_raises_exactly_when_absent:
  assumes "wf_oas oas"
  shows "case spec_find_operation oas path method of
           None \<Rightarrow>
             is_operation_deprecated oas path method = Inl KeyError
             \<and> are_parameter_deprecated oas path method requested = Inl KeyError
         | Some operation \<Rightarrow>
             (\<exists>v. is_operation_deprecated oas path method = Inr v)
             \<and> (case param_field operation ''parameters'' of
                  None \<Rightarrow> are_parameter_deprecated oas path method requested = Inl KeyError
                | Some declared \<Rightarrow>
                    (\<exists>r. are_parameter_deprecated oas path method requested = Inr r)
                    \<and> (declared = JList [] \<longrightarrow>
                         are_parameter_deprecated oas path method requested = Inr (False, [])))"
proof (cases "spec_find_operation oas path method")
  case None
  with wf_oas_absent [OF assms None] show ?thesis by simp
next
  case (Some operation)
  with assms have "wf_operation operation" by (rule wf_oas_present)
  then obtain fields where f: "operation = JObj fields"
    and ps: "map_of fields ''parameters'' = None \<or>
     (\<exists>declared. map_of fields ''parameters'' = Some (JList declared)
        \<and> (\<forall>p \<in> set declared. wf_parameter p))"
    by (rule wf_operation_shape)
  from Some f have found: "spec_find_operation oas path method = Some (JObj fields)" by simp
  have op: "\<exists>v. is_operation_deprecated oas path method = Inr v"
    by (simp add: is_operation_deprecated_found [OF found])
  from ps show ?thesis
  proof
    assume none: "map_of fields ''parameters'' = None"
    with op Some f are_parameter_deprecated_no_parameters [OF found none] show ?thesis
      by (simp add: param_field_def)
  next
    assume "\<exists>declared. map_of fields ''parameters'' = Some (JList declared)
        \<and> (\<forall>p \<in> set declared. wf_parameter p)"
    then obtain declared where d: "map_of fields ''parameters'' = Some (JList declared)"
      and wf: "\<forall>p \<in> set declared. wf_parameter p" by blast
    have "are_parameter_deprecated oas path method requested =
           Inr (spec_deprecated_subset requested declared \<noteq> [],
                spec_deprecated_subset requested declared)"
      using found d wf by (rule are_parameter_deprecated_found)
    moreover have "spec_deprecated_subset requested [] = []"
      by (simp add: spec_deprecated_subset_def)
    ultimately show ?thesis using op Some f d
      by (auto simp: param_field_def)
  qed
qed

theorem detection_raises_exactly_when_absent_witness:
  "wf_oas example_oas
   \<and> is_operation_deprecated example_oas ''/orders'' ''GET'' = Inl KeyError
   \<and> are_parameter_deprecated example_oas ''/orders'' ''GET'' [''limit''] = Inl KeyError"
proof -
  have h: "wf_oas example_oas" by code_simp
  have n: "spec_find_operation example_oas ''/orders'' ''GET'' = None" by code_simp
  from detection_raises_exactly_when_absent [OF h, of "''/orders''" "''GET''" "[''limit'']"] n
  have "is_operation_deprecated example_oas ''/orders'' ''GET'' = Inl KeyError
   \<and> are_parameter_deprecated example_oas ''/orders'' ''GET'' [''limit''] = Inl KeyError"
    by simp
  with h show ?thesis by simp
qed

lemma example_method_absent:
  "is_operation_deprecated example_oas ''/users'' ''DELETE'' = Inl KeyError
   \<and> are_parameter_deprecated example_oas ''/users'' ''DELETE'' [''limit''] = Inl KeyError"
  by code_simp

lemma example_no_parameters_field:
  "is_operation_deprecated example_oas ''/users'' ''POST'' = Inr (JBool False)
   \<and> are_parameter_deprecated example_oas ''/users'' ''POST'' [''limit''] = Inl KeyError"
  by code_simp

lemma example_empty_parameters:
  "are_parameter_deprecated example_oas ''/users'' ''PUT'' [''limit''] = Inr (False, [])"
  by code_simp

section \<open>Properties of the Slack sink\<close>

lemma py_dict_eq_new_message:
  "py_dict_eq (new_message u m p d t) (JObj (new_message u' m' p' d' t'))
     \<longleftrightarrow> new_message u m p d t = new_message u' m' p' d' t'"
  by (simp add: py_dict_eq_def new_message_def)

lemma new_message_permuted:
  assumes "mset qs = mset ps"
  shows "new_message u m (Some qs) d t = new_message u m (Some ps) d t"
proof -
  from assms have "sort qs = sort ps"
    by (metis properties_for_sort sorted_sort mset_sort)
  moreover from assms have "qs = [] \<longleftrightarrow> ps = []"
    by (metis mset_zero_iff)
  ultimately show ?thesis by (simp add: new_message_def)
qed

lemma new_message_empty: "new_message u m (Some []) d t = new_message u m None d t"
  by (simp add: new_message_def)

lemma new_message_method: "new_message u m' p d t = new_message u m p d t \<longleftrightarrow> m' = m"
  by (simp add: new_message_def)

lemma history_cases:
  assumes "history s path = Some old"
  shows "(files s path = None \<and> old = []) \<or> files s path = Some (Inr (JList old))"
  using assms
  by (auto simp: history_def split: option.splits sum.splits json.splits)

text \<open>
  A send whose webhook call is answered and whose write goes through appends its record.
\<close>

lemma send_appends:
  assumes "history s (file_path config) = Some old"
    and "fst (http (net s) (slack_request config u m p d t)) = Inr r"
    and "writes s (file_path config) = Written"
  shows "fst (send_deprecation_webhook_slack http config u m p d t s) = Inr ()"
    and "files (snd (send_deprecation_webhook_slack http config u m p d t s)) (file_path config)
           = Some (Inr (JList (old @ [JObj (new_message u m p d t)])))"
    and "history (snd (send_deprecation_webhook_slack http config u m p d t s)) (file_path config)
           = Some (old @ [JObj (new_message u m p d t)])"
proof -
  obtain a w where aw: "http (net s) (slack_request config u m p d t) = (a, w)"
    by (cases "http (net s) (slack_request config u m p d t)")
  with assms(2) have a: "a = Inr r" by simp
  from history_cases [OF assms(1)]
  have f: "files (snd (send_deprecation_webhook_slack http config u m p d t s)) (file_path config)
           = Some (Inr (JList (old @ [JObj (new_message u m p d t)])))
         \<and> fst (send_deprecation_webhook_slack http config u m p d t s) = Inr ()"
    by (auto simp: send_deprecation_webhook_slack_def aw a assms(3))
  then show "fst (send_deprecation_webhook_slack http config u m p d t s) = Inr ()"
    and "files (snd (send_deprecation_webhook_slack http config u m p d t s)) (file_path config)
           = Some (Inr (JList (old @ [JObj (new_message u m p d t)])))"
    by simp_all
  with f show "history (snd (send_deprecation_webhook_slack http config u m p d t s)) (file_path config)
           = Some (old @ [JObj (new_message u m p d t)])"
    by (simp add: history_def)
qed

text \<open>
  A send whose write cannot open the file raises after the webhook call and leaves every
  file as it was.
\<close>

lemma send_open_raises:
  assumes "history s (file_path config) = Some old"
    and "fst (http (net s) (slack_request config u m p d t)) = Inr r"
    and "writes s (file_path config) = Open_raises"
  shows "fst (send_deprecation_webhook_slack http config u m p d t s) = Inl OSError
         \<and> files (snd (send_deprecation_webhook_slack http config u m p d t s)) = files s"
proof -
  obtain a w where aw: "http (net s) (slack_request config u m p d t) = (a, w)"
    by (cases "http (net s) (slack_request config u m p d t)")
  with assms(2) have a: "a = Inr r" by simp
  from history_cases [OF assms(1)] show ?thesis
    by (auto simp: send_deprecation_webhook_slack_def aw a assms(3))
qed

lemma check_reads_list:
  assumes "files s (file_path config) = Some (Inr (JList messages))"
  shows "check_if_already_send config u m p d t s
           = Inr (list_ex (py_dict_eq (new_message u m p d t)) messages)"
  using assms by (simp add: check_if_already_send_def and_then_def py_iter_def)

lemma check_missing:
  assumes "files s (file_path config) = None"
  shows "check_if_already_send config u m p d t s = Inr False"
  using assms by (simp add: check_if_already_send_def)

lemma check_history:
  assumes "history s (file_path config) = Some old"
  shows "check_if_already_send config u m p d t s
           = Inr (list_ex (py_dict_eq (new_message u m p d t)) old)"
  using history_cases [OF assms] by (auto simp: check_reads_list check_missing)

lemma check_after_send:
  assumes "history s (file_path config) = Some old"
    and "fst (http (net s) (slack_request config u m p d t)) = Inr r"
    and "writes s (file_path config) = Written"
  shows "check_if_already_send config u' m' p' d' t'
           (snd (send_deprecation_webhook_slack http config u m p d t s))
         = Inr (list_ex (py_dict_eq (new_message u' m' p' d' t')) old
                \<or> new_message u' m' p' d' t' = new_message u m p d t)"
proof -
  from assms
  have "files (snd (send_deprecation_webhook_slack http config u m p d t s)) (file_path config)
           = Some (Inr (JList (old @ [JObj (new_message u m p d t)])))"
    by (rule send_appends(2))
  then show ?thesis
    by (simp add: check_reads_list py_dict_eq_new_message)
qed

lemma emit_when_recorded:
  assumes "check_if_already_send config u m p d t s = Inr True"
  shows "slack_emit_then_record http config u m p d t s = (Inr (), s)"
  using assms by (simp add: slack_emit_then_record_def)

lemma emit_when_new:
  assumes "check_if_already_send config u m p d t s = Inr False"
  shows "slack_emit_then_record http config u m p d t s
           = send_deprecation_webhook_slack http config u m p d t s"
  using assms by (simp add: slack_emit_then_record_def)

lemma example_http_answers: "\<forall>request. \<exists>r. fst (example_http w request) = Inr r"
  by (simp add: example_http_def)

lemma example_history: "history example_world path = Some []"
  by (simp add: history_def example_world_def)

lemma example_writes: "writes example_world path = Written"
  by (simp add: example_world_def)

text \<open>
  With the directory of the history file missing, the read finds no file, the webhook
  call is made, the write raises and the event is still not recorded: a second run of the
  sequence makes the call again.
\<close>

lemma example_no_directory:
  "check_if_already_send example_slack ''https://api.test/users'' ''GET'' None
     no_datetime no_datetime example_world_no_directory = Inr False
   \<and> fst (send_deprecation_webhook_slack example_http example_slack ''https://api.test/users''
          ''GET'' None no_datetime no_datetime example_world_no_directory) = Inl OSError
   \<and> check_if_already_send example_slack ''https://api.test/users'' ''GET'' None
        no_datetime no_datetime
        (snd (send_deprecation_webhook_slack example_http example_slack
           ''https://api.test/users'' ''GET'' None no_datetime no_datetime
           example_world_no_directory)) = Inr False"
  by code_simp

text \<open>
  Claim C4. From a history that can be extended, with a webhook that answers and a file
  that can be written, \<open>send_deprecation_webhook_slack\<close> with a parameter list returns,
  and afterwards \<open>check_if_already_send\<close> with any reordering of that list and the same
  other fields returns \<^verbatim>\<open>True\<close>, in particular with \<open>[b, a]\<close> after \<open>[a, b]\<close>; a record
  stored with the empty list matches a check without parameters, and a record stored
  without parameters matches a check with the empty list.
\<close>

theorem slack_identity_ignores_order_and_emptiness:
  assumes "history s (file_path config) = Some old"
    and "\<forall>request. \<exists>r. fst (http (net s) request) = Inr r"
    and "writes s (file_path config) = Written"
    and "mset qs = mset ps"
  shows "fst (send_deprecation_webhook_slack http config u m (Some ps) d t s) = Inr ()
         \<and> check_if_already_send config u m (Some qs) d t
             (snd (send_deprecation_webhook_slack http config u m (Some ps) d t s)) = Inr True
         \<and> check_if_already_send config u m (Some [b, a]) d t
             (snd (send_deprecation_webhook_slack http config u m (Some [a, b]) d t s)) = Inr True
         \<and> check_if_already_send config u m None d t
             (snd (send_deprecation_webhook_slack http config u m (Some []) d t s)) = Inr True
         \<and> check_if_already_send config u m (Some []) d t
             (snd (send_deprecation_webhook_slack http config u m None d t s)) = Inr True"
proof -
  have answered: "\<exists>r. fst (http (net s) (slack_request config u m p d t)) = Inr r" for p
    using assms(2) by blast
  have swap: "mset [b, a] = mset [a, b]" by simp
  from answered obtain r1 where "fst (http (net s) (slack_request config u m (Some ps) d t)) = Inr r1"
    by blast
  with assms(1,3) have 1: "fst (send_deprecation_webhook_slack http config u m (Some ps) d t s) = Inr ()"
    and 2: "check_if_already_send config u m (Some qs) d t
             (snd (send_deprecation_webhook_slack http config u m (Some ps) d t s)) = Inr True"
    by (simp_all add: send_appends(1) check_after_send new_message_permuted [OF assms(4)])
  from answered obtain r2 where "fst (http (net s) (slack_request config u m (Some [a, b]) d t)) = Inr r2"
    by blast
  with assms(1,3) have 3: "check_if_already_send config u m (Some [b, a]) d t
             (snd (send_deprecation_webhook_slack http config u m (Some [a, b]) d t s)) = Inr True"
    by (simp add: check_after_send new_message_permuted [OF swap])
  from answered obtain r3 where "fst (http (net s) (slack_request config u m (Some []) d t)) = Inr r3"
    by blast
  with assms(1,3) have 4: "check_if_already_send config u m None d t
             (snd (send_deprecation_webhook_slack http config u m (Some []) d t s)) = Inr True"
    by (simp add: check_after_send new_message_empty)
  from answered obtain r4 where "fst (http (net s) (slack_request config u m None d t)) = Inr r4"
    by blast
  with assms(1,3) have 5: "check_if_already_send config u m (Some []) d t
             (snd (send_deprecation_webhook_slack http config u m None d t s)) = Inr True"
    by (simp add: check_after_send new_message_empty)
  from 1 2 3 4 5 show ?thesis by simp
qed

theorem slack_identity_ignores_order_and_emptiness_witness:
  "history example_world (file_path example_slack) = Some []
   \<and> (\<forall>request. \<exists>r. fst (example_http (net example_world) request) = Inr r)
   \<and> writes example_world (file_path example_slack) = Written
   \<and> mset [''b'', ''a''] = mset [''a'', ''b'']
   \<and> fst (send_deprecation_webhook_slack example_http example_slack ''https://api.test/users''
           ''GET'' (Some [''a'', ''b'']) no_datetime no_datetime example_world) = Inr ()
   \<and> check_if_already_send example_slack ''https://api.test/users'' ''GET'' (Some [''b'', ''a''])
        no_datetime no_datetime
        (snd (send_deprecation_webhook_slack example_http example_slack ''https://api.test/users''
           ''GET'' (Some [''a'', ''b'']) no_datetime no_datetime example_world)) = Inr True"
proof -
  have h1: "history example_world (file_path example_slack) = Some []"
    by (rule example_history)
  have h2: "\<forall>request. \<exists>r. fst (example_http (net example_world) request) = Inr r"
    by (rule example_http_answers)
  have h3: "writes example_world (file_path example_slack) = Written"
    by (rule example_writes)
  have h4: "mset [''b'', ''a''] = mset [''a'', ''b'']"
    by simp
  from slack_identity_ignores_order_and_emptiness
    [where http = example_http and s = example_world and config = example_slack
      and u = "''https://api.test/users''" and m = "''GET''"
      and d = no_datetime and t = no_datetime, OF h1 h2 h3 h4]
  have "fst (send_deprecation_webhook_slack example_http example_slack ''https://api.test/users''
           ''GET'' (Some [''a'', ''b'']) no_datetime no_datetime example_world) = Inr ()
    \<and> check_if_already_send example_slack ''https://api.test/users'' ''GET'' (Some [''b'', ''a''])
        no_datetime no_datetime
        (snd (send_deprecation_webhook_slack example_http example_slack ''https://api.test/users''
           ''GET'' (Some [''a'', ''b'']) no_datetime no_datetime example_world)) = Inr True"
    by simp
  with h1 h2 h3 h4 show ?thesis by simp
qed

text \<open>
  Claim C5 says that the HTTP method is compared without regard to letter case. The
  history keeps the method as given and the comparison is equality of strings: after a
  send with \<^verbatim>\<open>GET\<close> into an empty history, a check with \<^verbatim>\<open>get\<close> returns
  \<^verbatim>\<open>False\<close>.
\<close>

theorem slack_method_case_counterexample:
  "check_if_already_send example_slack ''https://api.test/users'' ''get'' None
     no_datetime no_datetime
     (snd (send_deprecation_webhook_slack example_http example_slack ''https://api.test/users''
        ''GET'' None no_datetime no_datetime example_world)) = Inr False"
  by code_simp

text \<open>
  Claim C5, amended. The HTTP method is compared exactly. After a send with method \<open>m\<close>
  that is answered and written, the check with method \<open>m'\<close> and all other fields
  identical returns \<^verbatim>\<open>True\<close> when \<open>m'\<close> is the same string as \<open>m\<close>, and for any other
  \<open>m'\<close> it returns what it returned before the send: \<^verbatim>\<open>True\<close> only if the history
  already held a matching record with \<open>m'\<close>.
\<close>

theorem slack_method_compared_exactly:
  assumes "history s (file_path config) = Some old"
    and "fst (http (net s) (slack_request config u m p d t)) = Inr r"
    and "writes s (file_path config) = Written"
  shows "fst (send_deprecation_webhook_slack http config u m p d t s) = Inr ()
         \<and> check_if_already_send config u m p d t
             (snd (send_deprecation_webhook_slack http config u m p d t s)) = Inr True
         \<and> check_if_already_send config u m' p d t
             (snd (send_deprecation_webhook_slack http config u m p d t s))
           = Inr (m' = m \<or> check_if_already_send config u m' p d t s = Inr True)"
proof -
  from assms have sent: "fst (send_deprecation_webhook_slack http config u m p d t s) = Inr ()"
    by (rule send_appends(1))
  from assms have after: "check_if_already_send config u m'' p d t
             (snd (send_deprecation_webhook_slack http config u m p d t s))
           = Inr (list_ex (py_dict_eq (new_message u m'' p d t)) old \<or> m'' = m)" for m''
    by (simp add: check_after_send new_message_method)
  have before: "check_if_already_send config u m' p d t s
                  = Inr (list_ex (py_dict_eq (new_message u m' p d t)) old)"
    using assms(1) by (rule check_history)
  from sent after [of m] after [of m'] before show ?thesis
    by auto
qed

theorem slack_method_compared_exactly_witness:
  "history example_world (file_path example_slack) = Some []
   \<and> fst (example_http (net example_world)
        (slack_request example_slack ''https://api.test/users'' ''GET'' None
           no_datetime no_datetime)) = Inr (Response (Inr (JStr ''ok'')))
   \<and> writes example_world (file_path example_slack) = Written
   \<and> check_if_already_send example_slack ''https://api.test/users'' ''get'' None
        no_datetime no_datetime example_world = Inr False
   \<and> check_if_already_send example_slack ''https://api.test/users'' ''GET'' None
        no_datetime no_datetime
        (snd (send_deprecation_webhook_slack example_http example_slack ''https://api.test/users''
           ''GET'' None no_datetime no_datetime example_world)) = Inr True
   \<and> check_if_already_send example_slack ''https://api.test/users'' ''get'' None
        no_datetime no_datetime
        (snd (send_deprecation_webhook_slack example_http example_slack ''https://api.test/users''
           ''GET'' None no_datetime no_datetime example_world)) = Inr False"
proof -
  have h1: "history example_world (file_path example_slack) = Some []"
    by (rule example_history)
  have h2: "fst (example_http (net example_world)
        (slack_request example_slack ''https://api.test/users'' ''GET'' None
           no_datetime no_datetime)) = Inr (Response (Inr (JStr ''ok'')))"
    by (simp add: example_http_def)
  have h3: "writes example_world (file_path example_slack) = Written"
    by (rule example_writes)
  have before: "check_if_already_send example_slack ''https://api.test/users'' ''get'' None
        no_datetime no_datetime example_world = Inr False"
    by (simp add: check_if_already_send_def example_world_def)
  from slack_method_compared_exactly
    [where http = example_http and s = example_world and config = example_slack
      and m' = "''get''", OF h1 h2 h3]
    h1 h2 h3 before
  show ?thesis
    by simp
qed

text \<open>
  Claim C6. When the history file does not exist, \<open>check_if_already_send\<close> returns
  \<^verbatim>\<open>False\<close> for every event and raises nothing; and one
  \<open>send_deprecation_webhook_slack\<close> whose webhook call is answered and whose write goes
  through, from a missing file or a file holding a list, returns, and the check with the
  identical event then returns \<^verbatim>\<open>True\<close>.
\<close>

theorem missing_history_is_empty_history:
  "(files s (file_path config) = None \<longrightarrow>
      check_if_already_send config u m p d t s = Inr False)
   \<and> (history s (file_path config) = Some old
        \<and> fst (http (net s) (slack_request config u m p d t)) = Inr r
        \<and> writes s (file_path config) = Written \<longrightarrow>
      fst (send_deprecation_webhook_slack http config u m p d t s) = Inr ()
      \<and> check_if_already_send config u m p d t
          (snd (send_deprecation_webhook_slack http config u m p d t s)) = Inr True)"
  by (simp add: check_missing send_appends(1) check_after_send)

theorem missing_history_is_empty_history_witness:
  "files example_world (file_path example_slack) = None
   \<and> history example_world (file_path example_slack) = Some []
   \<and> fst (example_http (net example_world)
        (slack_request example_slack ''https://api.test/users'' ''GET'' (Some [''limit''])
           no_datetime no_datetime)) = Inr (Response (Inr (JStr ''ok'')))
   \<and> writes example_world (file_path example_slack) = Written
   \<and> check_if_already_send example_slack ''https://api.test/users'' ''GET'' (Some [''limit''])
        no_datetime no_datetime example_world = Inr False
   \<and> fst (send_deprecation_webhook_slack example_http example_slack ''https://api.test/users''
           ''GET'' (Some [''limit'']) no_datetime no_datetime example_world) = Inr ()
   \<and> check_if_already_send example_slack ''https://api.test/users'' ''GET'' (Some [''limit''])
        no_datetime no_datetime
        (snd (send_deprecation_webhook_slack example_http example_slack ''https://api.test/users''
           ''GET'' (Some [''limit'']) no_datetime no_datetime example_world)) = Inr True"
proof -
  have h0: "files example_world (file_path example_slack) = None"
    by (simp add: example_world_def)
  have h1: "history example_world (file_path example_slack) = Some []"
    by (rule example_history)
  have h2: "fst (example_http (net example_world)
        (slack_request example_slack ''https://api.test/users'' ''GET'' (Some [''limit''])
           no_datetime no_datetime)) = Inr (Response (Inr (JStr ''ok'')))"
    by (simp add: example_http_def)
  have h3: "writes example_world (file_path example_slack) = Written"
    by (rule example_writes)
  from missing_history_is_empty_history
    [of example_world example_slack "''https://api.test/users''" "''GET''" "Some [''limit'']"
      no_datetime no_datetime "[]" example_http "Response (Inr (JStr ''ok''))"]
    h0 h1 h2 h3
  show ?thesis by simp
qed

text \<open>
  Claim C7. For an event that no stored record matches, with a webhook that answers and
  a history file that can be written, running the emit-then-record sequence twice gives
  \<^verbatim>\<open>True\<close> for the check of the second run, which therefore changes nothing, and the
  history after both runs is the history before with exactly one entry added.
\<close>

theorem slack_emit_then_record_idempotent:
  assumes "history s (file_path config) = Some old"
    and "check_if_already_send config u m p d t s = Inr False"
    and "fst (http (net s) (slack_request config u m p d t)) = Inr r"
    and "writes s (file_path config) = Written"
  shows "fst (slack_emit_then_record http config u m p d t s) = Inr ()
         \<and> check_if_already_send config u m p d t
             (snd (slack_emit_then_record http config u m p d t s)) = Inr True
         \<and> slack_emit_then_record http config u m p d t
             (snd (slack_emit_then_record http config u m p d t s))
           = (Inr (), snd (slack_emit_then_record http config u m p d t s))
         \<and> history (snd (slack_emit_then_record http config u m p d t
             (snd (slack_emit_then_record http config u m p d t s)))) (file_path config)
           = Some (old @ [JObj (new_message u m p d t)])"
proof -
  let ?s1 = "snd (slack_emit_then_record http config u m p d t s)"
  have first: "slack_emit_then_record http config u m p d t s
           = send_deprecation_webhook_slack http config u m p d t s"
    using assms(2) by (rule emit_when_new)
  from assms(1,3,4) have ok: "fst (slack_emit_then_record http config u m p d t s) = Inr ()"
    and hist: "history ?s1 (file_path config) = Some (old @ [JObj (new_message u m p d t)])"
    and seen: "check_if_already_send config u m p d t ?s1 = Inr True"
    by (simp_all add: first send_appends(1,3) check_after_send)
  from seen have second: "slack_emit_then_record http config u m p d t ?s1 = (Inr (), ?s1)"
    by (rule emit_when_recorded)
  from ok seen second hist show ?thesis by simp
qed

theorem slack_emit_then_record_idempotent_witness:
  "history example_world (file_path example_slack) = Some []
   \<and> check_if_already_send example_slack ''https://api.test/users'' ''GET'' None
        no_datetime no_datetime example_world = Inr False
   \<and> fst (example_http (net example_world)
        (slack_request example_slack ''https://api.test/users'' ''GET'' None
           no_datetime no_datetime)) = Inr (Response (Inr (JStr ''ok'')))
   \<and> writes example_world (file_path example_slack) = Written
   \<and> fst (slack_emit_then_record example_http example_slack ''https://api.test/users''
          ''GET'' None no_datetime no_datetime example_world) = Inr ()
   \<and> check_if_already_send example_slack ''https://api.test/users'' ''GET'' None
        no_datetime no_datetime
        (snd (slack_emit_then_record example_http example_slack ''https://api.test/users''
           ''GET'' None no_datetime no_datetime example_world)) = Inr True
   \<and> slack_emit_then_record example_http example_slack ''https://api.test/users''
        ''GET'' None no_datetime no_datetime
        (snd (slack_emit_then_record example_http example_slack ''https://api.test/users''
           ''GET'' None no_datetime no_datetime example_world))
       = (Inr (), snd (slack_emit_then_record example_http example_slack
                   ''https://api.test/users'' ''GET'' None no_datetime no_datetime example_world))
   \<and> history (snd (slack_emit_then_record example_http example_slack ''https://api.test/users''
          ''GET'' None no_datetime no_datetime
          (snd (slack_emit_then_record example_http example_slack ''https://api.test/users''
             ''GET'' None no_datetime no_datetime example_world)))) (file_path example_slack)
       = Some ([] @ [JObj (new_message ''https://api.test/users'' ''GET'' None
                             no_datetime no_datetime)])"
proof -
  have h1: "history example_world (file_path example_slack) = Some []"
    by (rule example_history)
  have h2: "check_if_already_send example_slack ''https://api.test/users'' ''GET'' None
        no_datetime no_datetime example_world = Inr False"
    by (simp add: check_if_already_send_def example_world_def)
  have h3: "fst (example_http (net example_world)
        (slack_request example_slack ''https://api.test/users'' ''GET'' None
           no_datetime no_datetime)) = Inr (Response (Inr (JStr ''ok'')))"
    by (simp add: example_http_def)
  have h4: "writes example_world (file_path example_slack) = Written"
    by (rule example_writes)
  note run = slack_emit_then_record_idempotent
    [where http = example_http and s = example_world and config = example_slack,
      OF h1 h2 h3 h4]
  show ?thesis
    by (rule conjI [OF h1 conjI [OF h2 conjI [OF h3 conjI [OF h4 run]]]])
qed

section \<open>Properties of the log sink\<close>



section \<open>Properties of the Jira sink\<close>

lemma add_missing_succeeds:
  assumes "\<forall>w r. verb r = ''PUT'' \<longrightarrow> (\<exists>x. fst (http w r) = Inr x)"
    and "py_getitem issue ''id'' = Inr issue_id"
  shows "fst (add_missing http py_str config issue (JList labels) ps w) = Inr ()"
proof (induction ps arbitrary: w)
  case Nil
  show ?case by simp
next
  case (Cons param rest)
  show ?case
  proof (cases "JStr param \<in> set labels")
    case True
    then show ?thesis by (simp add: py_contains_def Cons.IH)
  next
    case False
    obtain answer w' where step: "http w (add_request py_str config issue_id param) = (answer, w')"
      by (cases "http w (add_request py_str config issue_id param)")
    have "verb (add_request py_str config issue_id param) = ''PUT''"
      by (simp add: add_request_def)
    with assms(1) obtain x where "fst (http w (add_request py_str config issue_id param)) = Inr x"
      by blast
    with step have "answer = Inr x" by simp
    with False step assms(2) show ?thesis
      by (simp add: py_contains_def Cons.IH)
  qed
qed

lemma mergeable_shape:
  assumes "mergeable config issue"
  obtains issue_id labels where "py_getitem issue ''id'' = Inr issue_id"
    "and_then (py_getitem issue ''fields'') (\<lambda>issue_fields.
       py_getitem issue_fields (DEPRECATED_PARAMETER_FIELD config)) = Inr (JList labels)"
  using assms unfolding mergeable_def
  by (auto split: sum.splits json.splits)

lemma decide_exists_result:
  assumes "py_getitem response_data ''issues'' = Inr (JList issues)"
    and "given deprecated_parameter \<Longrightarrow> list_all (mergeable config) (take 1 issues)"
    and "\<forall>w r. verb r = ''PUT'' \<longrightarrow> (\<exists>x. fst (http w r) = Inr x)"
  shows "fst (decide_exists http py_str config deprecated_parameter response_data w)
           = Inr (issues \<noteq> [])"
proof (cases "given deprecated_parameter \<and> issues \<noteq> []")
  case False
  with assms(1) show ?thesis
    by (auto simp: decide_exists_def)
next
  case True
  then obtain issue rest where issues: "issues = issue # rest"
    by (cases issues) auto
  with True assms(2) have "mergeable config issue" by simp
  then obtain issue_id labels where id: "py_getitem issue ''id'' = Inr issue_id"
    and labels: "and_then (py_getitem issue ''fields'') (\<lambda>issue_fields.
       py_getitem issue_fields (DEPRECATED_PARAMETER_FIELD config)) = Inr (JList labels)"
    by (rule mergeable_shape)
  from labels have read: "and_then (py_first (JList (issue # rest))) (\<lambda>issue.
                    and_then (py_getitem issue ''fields'') (\<lambda>issue_fields.
                    and_then (py_getitem issue_fields (DEPRECATED_PARAMETER_FIELD config))
                      (\<lambda>query_deprecated_parameter. Inr (issue, query_deprecated_parameter))))
             = Inr (issue, JList labels)"
    by (auto simp: py_first_def and_then_def split: sum.splits)
  have run: "fst (add_missing http py_str config issue (JList labels)
                   (case deprecated_parameter of Some ps \<Rightarrow> ps | None \<Rightarrow> []) w) = Inr ()"
    using assms(3) id by (rule add_missing_succeeds)
  obtain a w' where aw: "add_missing http py_str config issue (JList labels)
                   (case deprecated_parameter of Some ps \<Rightarrow> ps | None \<Rightarrow> []) w = (a, w')"
    by (cases "add_missing http py_str config issue (JList labels)
                   (case deprecated_parameter of Some ps \<Rightarrow> ps | None \<Rightarrow> []) w")
  with run have "a = Inr ()" by simp
  with True assms(1) issues read aw show ?thesis
    by (simp add: decide_exists_def)
qed

text \<open>
  When the server answers the two queries, the answer of the search holds a list of
  issues and, if a non-empty parameter list was supplied, the first issue has an id and a
  list in its parameter field and the update calls are answered, the function returns
  whether the list of issues is non-empty.
\<close>

lemma check_if_issue_exists_when_mergeable:
  assumes "http w (server_info_request config) = (Inr (Response (Inr info)), w1)"
    and "py_getitem info ''serverTime'' = Inr (JStr server_time)"
    and "strptime server_time = Inr tz"
    and "http w1 (search_request config
           (query_string tz config u m deprecated_parameter d t))
         = (Inr (Response (Inr response_data)), w2)"
    and "py_getitem response_data ''issues'' = Inr (JList issues)"
    and "given deprecated_parameter \<Longrightarrow> list_all (mergeable config) (take 1 issues)"
    and "\<forall>w r. verb r = ''PUT'' \<longrightarrow> (\<exists>x. fst (http w r) = Inr x)"
  shows "fst (check_if_issue_exists strptime py_str http config u m deprecated_parameter d t w)
           = Inr (issues \<noteq> [])"
proof -
  have "fst (decide_exists http py_str config deprecated_parameter response_data w2)
           = Inr (issues \<noteq> [])"
    using assms(5,6,7) by (rule decide_exists_result)
  with assms(1,2,3,4) show ?thesis
    by (simp add: check_if_issue_exists_def and_then_def)
qed

lemma sent_jql_append: "sent_jql (xs @ ys) = sent_jql xs @ sent_jql ys"
  by (simp add: sent_jql_def)




text \<open>
  Without any assumption on the answers: whenever the last block returns a value, it is
  whether the \<^verbatim>\<open>issues\<close> entry differs from the empty list.
\<close>

lemma decide_exists_value:
  assumes "fst (decide_exists http py_str config p response_data w) = Inr b"
  shows "\<exists>issues. py_getitem response_data ''issues'' = Inr issues \<and> b = (issues \<noteq> JList [])"
  using assms
  by (auto simp: decide_exists_def split: sum.splits prod.splits if_splits)

text \<open>
  Claim C8 says that \<open>check_if_issue_exists\<close> returns \<^verbatim>\<open>True\<close> whenever a parameter
  list was supplied and at least one issue matched, whatever updates were needed. When
  the parameter field of the first matching issue is \<^verbatim>\<open>null\<close>, which is what
  \<^verbatim>\<open>create_new_jira_issue\<close> stores for an event without parameters, and which the
  filter sent with a parameter list does not exclude, the test
  \<^verbatim>\<open>param not in query_deprecated_parameter\<close> raises \<^verbatim>\<open>TypeError\<close>: the function
  returns nothing and no parameter is added.
\<close>

theorem check_if_issue_exists_null_field_raises:
  "fst (check_if_issue_exists example_strptime example_py_str
          (example_tracker [JObj [(''id'', JStr ''10043''),
                                  (''fields'', JObj [(''customfield_5'', JNull)])]])
          example_jira ''https://api.test/users'' ''GET'' (Some [''limit''])
          no_datetime no_datetime ()) = Inl TypeError"
  by code_simp

lemma example_tracker_answers: "\<forall>w r. \<exists>x. fst (example_tracker issues w r) = Inr x"
  by (simp add: example_tracker_def)

lemma example_server_info:
  "example_tracker issues () (server_info_request example_jira)
     = (Inr (Response (Inr (JObj [(''serverTime'', JStr ''2024-05-01T10:00:00.000+0200'')]))), ())"
  by (simp add: example_tracker_def server_info_request_def)

lemma example_search:
  "example_tracker issues () (search_request example_jira q)
     = (Inr (Response (Inr (JObj [(''issues'', JList issues)]))), ())"
  by (simp add: example_tracker_def search_request_def)

lemma example_check_if_issue_exists_merges:
  "example_tracker [example_issue] () (server_info_request example_jira)
     = (Inr (Response (Inr (JObj [(''serverTime'', JStr ''2024-05-01T10:00:00.000+0200'')]))), ())
   \<and> py_getitem (JObj [(''serverTime'', JStr ''2024-05-01T10:00:00.000+0200'')]) ''serverTime''
       = Inr (JStr ''2024-05-01T10:00:00.000+0200'')
   \<and> example_strptime ''2024-05-01T10:00:00.000+0200'' = Inr ()
   \<and> example_tracker [example_issue] () (search_request example_jira
         (query_string () example_jira ''https://api.test/users'' ''GET''
            (Some [''limit'', ''page'']) no_datetime no_datetime))
       = (Inr (Response (Inr (JObj [(''issues'', JList [example_issue])]))), ())
   \<and> py_getitem (JObj [(''issues'', JList [example_issue])]) ''issues''
       = Inr (JList [example_issue])
   \<and> given (Some [''limit'', ''page''])
   \<and> list_all (mergeable example_jira) (take 1 [example_issue])
   \<and> (\<forall>w r. \<exists>x. fst (example_tracker [example_issue] w r) = Inr x)
   \<and> fst (check_if_issue_exists example_strptime example_py_str
              (example_tracker [example_issue]) example_jira ''https://api.test/users'' ''GET''
              (Some [''limit'', ''page'']) no_datetime no_datetime ()) = Inr True"
proof -
  note h1 = example_server_info [of "[example_issue]"]
  have h2: "py_getitem (JObj [(''serverTime'', JStr ''2024-05-01T10:00:00.000+0200'')])
              ''serverTime'' = Inr (JStr ''2024-05-01T10:00:00.000+0200'')"
    by (simp add: py_getitem_def)
  have h3: "example_strptime ''2024-05-01T10:00:00.000+0200'' = Inr ()"
    by (simp add: example_strptime_def)
  note h4 = example_search [of "[example_issue]"
      "query_string () example_jira ''https://api.test/users'' ''GET''
         (Some [''limit'', ''page'']) no_datetime no_datetime"]
  have h5: "py_getitem (JObj [(''issues'', JList [example_issue])]) ''issues''
              = Inr (JList [example_issue])"
    by (simp add: py_getitem_def)
  have h6: "list_all (mergeable example_jira) (take 1 [example_issue])"
    by code_simp
  note h7 = example_tracker_answers [of "[example_issue]"]
  have h7': "\<forall>w r. verb r = ''PUT'' \<longrightarrow> (\<exists>x. fst (example_tracker [example_issue] w r) = Inr x)"
    using h7 by blast
  have g: "given (Some [''limit'', ''page''])"
    by simp
  have "fst (check_if_issue_exists example_strptime example_py_str
              (example_tracker [example_issue]) example_jira ''https://api.test/users'' ''GET''
              (Some [''limit'', ''page'']) no_datetime no_datetime ()) = Inr ([example_issue] \<noteq> [])"
    using h1 h2 h3 h4 h5 h6 h7' by (rule check_if_issue_exists_when_mergeable)
  then have c: "fst (check_if_issue_exists example_strptime example_py_str
              (example_tracker [example_issue]) example_jira ''https://api.test/users'' ''GET''
              (Some [''limit'', ''page'']) no_datetime no_datetime ()) = Inr True"
    by simp
  show ?thesis
    by (rule conjI [OF h1 conjI [OF h2 conjI [OF h3 conjI [OF h4 conjI [OF h5 conjI [OF g
          conjI [OF h6 conjI [OF h7 c]]]]]]]])
qed




end
